theory Spec2Isabelle
  imports Complex_Main
begin

section \<open>The temperature controller of the alkalinity titrator\<close>

text \<open>
  A shallow embedding of \<^verbatim>\<open>titration/utils/devices/temperature_control.py\<close>, class
  \<^verbatim>\<open>Temperature_Control\<close>.

  Numbers. Python's numbers (the \<^verbatim>\<open>int\<close> defaults of the class and the \<^verbatim>\<open>float\<close>
  values read from the sensor and the clock) are modelled as exact reals; the step
  counter, which is only ever incremented, is an unbounded \<^verbatim>\<open>int\<close>. Rounding,
  infinities and NaN of IEEE arithmetic are not modelled. The true division \<^verbatim>\<open>/\<close>
  raises \<^verbatim>\<open>ZeroDivisionError\<close> at a zero divisor, for integers and floats alike, and
  that raise is a branch of the model.

  Collaborators. The clock (\<^verbatim>\<open>time.time()\<close>) and the sensor
  (\<^verbatim>\<open>sensor.get_temperature()\<close>) are inputs: each call site of the source takes the
  value it reads as a parameter. The commands sent out (sensor reads, relay commands,
  console prints) are appended to the ghost field \<open>effects\<close>, in program order.
\<close>

subsection \<open>Constants\<close>

definition PID_DEFAULT_KP :: real where "PID_DEFAULT_KP = 9 / 100"
definition PID_DEFAULT_TI :: real where "PID_DEFAULT_TI = 1 / 1000000"
definition PID_DEFAULT_TD :: real where "PID_DEFAULT_TD = 9"
definition PID_ANTIWINDUP_KP :: real where "PID_ANTIWINDUP_KP = 4 / 100"
definition PID_ANTIWINDUP_TI :: real where "PID_ANTIWINDUP_TI = 4 / 1000"
definition PID_ANTIWINDUP_TD :: real where "PID_ANTIWINDUP_TD = 9"

subsection \<open>The object\<close>

datatype py_error = ZeroDivisionError

datatype event = SensorRead | RelayOn | RelayOff | PrintDf

text \<open>
  One row of the data frame \<^verbatim>\<open>df\<close>: time, temperature, gain. The source stores
  \<^verbatim>\<open>time.ctime(timeNow)\<close>; the model keeps the clock value itself. The frame is a
  list of rows, and \<^verbatim>\<open>df.append\<close> adds one row at its end.
\<close>

type_synonym sample = "real \<times> real \<times> real"

record Temperature_Control =
  printData :: bool
  controlActive :: bool
  kp :: real
  Ti :: real
  Td :: real
  k :: real
  integral :: real
  integral_prior :: real
  derivative :: real
  error :: real
  error_prior :: real
  stepCount :: int
  timeStep :: real
  timeNext :: real
  temperatureLast :: real
  relayOn :: bool
  df :: "sample list"
  setPoint :: real
  effects :: "event list"

text \<open>
  The outcome of a method that may raise: \<open>Inr s\<close> is a normal return with the object
  in state \<open>s\<close>; \<open>Inl (e, s)\<close> is the exception \<open>e\<close>, raised with the object left in
  state \<open>s\<close> (the assignments made before the raise are kept).
\<close>

type_synonym outcome = "(py_error \<times> Temperature_Control) + Temperature_Control"

text \<open>
  The class-level defaults. \<open>t\<close> is the clock value at the time the class body ran
  (\<^verbatim>\<open>timeNext = time.time()\<close>).
\<close>

definition init :: "real \<Rightarrow> Temperature_Control" where
  "init t = \<lparr> printData = False, controlActive = False,
     kp = PID_DEFAULT_KP, Ti = PID_DEFAULT_TI, Td = PID_DEFAULT_TD,
     k = 0, integral = 0, integral_prior = 0, derivative = 0, error = 0, error_prior = 0,
     stepCount = 0, timeStep = 1, timeNext = t, temperatureLast = 0, relayOn = False,
     df = [], setPoint = 30, effects = [] \<rparr>"

subsection \<open>Private helpers\<close>

definition update_timeNext :: "real \<Rightarrow> Temperature_Control \<Rightarrow> Temperature_Control" where
  "update_timeNext stepTime s = s\<lparr>timeNext := stepTime\<rparr>"

definition set_controlparam_antiwindup :: "Temperature_Control \<Rightarrow> Temperature_Control" where
  "set_controlparam_antiwindup s =
     s\<lparr>kp := PID_ANTIWINDUP_KP, Ti := PID_ANTIWINDUP_TI, Td := PID_ANTIWINDUP_TD\<rparr>"

definition set_controlparam_default :: "Temperature_Control \<Rightarrow> Temperature_Control" where
  "set_controlparam_default s =
     s\<lparr>kp := PID_DEFAULT_KP, Ti := PID_DEFAULT_TI, Td := PID_DEFAULT_TD\<rparr>"

text \<open>
  \<^verbatim>\<open>__update_gains\<close>: four assignments in order; the third divides by \<^verbatim>\<open>timeStep\<close>
  and raises when it is zero, after \<open>error\<close> and \<open>integral\<close> have been assigned.
\<close>

definition update_gains :: "real \<Rightarrow> Temperature_Control \<Rightarrow> outcome" where
  "update_gains temperature s =
     (let s1 = s\<lparr>error := setPoint s - temperature\<rparr>;
          s2 = s1\<lparr>integral := integral_prior s1 + error s1 * timeStep s1\<rparr>
      in if timeStep s2 = 0 then Inl (ZeroDivisionError, s2)
         else
           let s3 = s2\<lparr>derivative := (error s2 - error_prior s2) / timeStep s2\<rparr>
           in Inr (s3\<lparr>k := kp s3 * (error s3 + Ti s3 * integral s3 + Td s3 * derivative s3)\<rparr>))"

definition update_priors :: "Temperature_Control \<Rightarrow> Temperature_Control" where
  "update_priors s = s\<lparr>error_prior := error s, integral_prior := integral s\<rparr>"

definition set_integral_zero :: "Temperature_Control \<Rightarrow> Temperature_Control" where
  "set_integral_zero s = s\<lparr>integral := 0\<rparr>"

definition set_relayState :: "bool \<Rightarrow> Temperature_Control \<Rightarrow> Temperature_Control" where
  "set_relayState boolean s =
     s\<lparr>relayOn := boolean, effects := effects s @ [if boolean then RelayOn else RelayOff]\<rparr>"

subsection \<open>Public methods\<close>

text \<open>
  \<^verbatim>\<open>update\<close>. The inputs are the values the tick would read: \<open>timeNow\<close> is the clock at
  line 83, \<open>timeSched\<close> the clock read again where the next action time is computed
  (\<^verbatim>\<open>time.time() + ...\<close>; every path that schedules reads it once), \<open>temperature\<close>
  the sensor reading of the off-phase branch. The body of the off-phase branch is cut
  into its four blocks: the anti-windup test (lines 107 to 111), the sensor read up to
  the gain update (lines 102 to 114), the relay decision (lines 116 to 134) and the
  data frame row (lines 136 to 143).
\<close>

definition anti_windup :: "Temperature_Control \<Rightarrow> Temperature_Control" where
  "anti_windup s =
     (if stepCount s < 250 then set_integral_zero s
      else if stepCount s = 250 then set_controlparam_antiwindup s
      else s)"

definition sample_gains :: "real \<Rightarrow> Temperature_Control \<Rightarrow> outcome" where
  "sample_gains temperature s =
     (let s1 = s\<lparr>effects := effects s @ [SensorRead]\<rparr>;
          s2 = s1\<lparr>temperatureLast := temperature\<rparr>;
          s3 = anti_windup s2
      in update_gains temperature s3)"

definition check_relay :: "real \<Rightarrow> real \<Rightarrow> Temperature_Control \<Rightarrow> Temperature_Control" where
  "check_relay timeSched temperature s =
     (if temperature < setPoint s then
        (if k s \<le> 0 then
           update_timeNext (timeSched + timeStep s) (s\<lparr>k := 0\<rparr>)
         else if k s < 1 then
           (let s1 = set_relayState True s
            in update_timeNext (timeSched + timeStep s1 * k s1) s1)
         else
           (let s1 = set_relayState True (s\<lparr>k := 1\<rparr>)
            in update_timeNext (timeSched + timeStep s1) s1))
      else
        (let s1 = set_relayState False (s\<lparr>k := 0\<rparr>);
             s2 = update_timeNext (timeSched + timeStep s1) s1
         in update_priors s2))"

definition add_data :: "real \<Rightarrow> real \<Rightarrow> Temperature_Control \<Rightarrow> Temperature_Control" where
  "add_data timeNow temperature s =
     (let s1 = s\<lparr>df := df s @ [(timeNow, temperature, k s)]\<rparr>
      in if printData s1 then s1\<lparr>effects := effects s1 @ [PrintDf]\<rparr> else s1)"

definition update :: "Temperature_Control \<Rightarrow> real \<Rightarrow> real \<Rightarrow> real \<Rightarrow> outcome" where
  "update s timeNow timeSched temperature =
     (if \<not> controlActive s then Inr s
      else if timeNow \<ge> timeNext s then
        (if relayOn s then
           (let s1 = set_relayState False s;
                s2 = s1\<lparr>stepCount := stepCount s1 + 1\<rparr>;
                s3 = update_priors s2
            in Inr (update_timeNext (timeSched + timeStep s3 * (1 - k s3)) s3))
         else
           (case sample_gains temperature s of
              Inl e \<Rightarrow> Inl e
            | Inr s4 \<Rightarrow> Inr (add_data timeNow temperature (check_relay timeSched temperature s4))))
      else Inr s)"

definition enable_print :: "Temperature_Control \<Rightarrow> Temperature_Control" where
  "enable_print s = s\<lparr>printData := True\<rparr>"

definition disable_print :: "Temperature_Control \<Rightarrow> Temperature_Control" where
  "disable_print s = s\<lparr>printData := False\<rparr>"

text \<open>
  \<^verbatim>\<open>at_temperature\<close>: two calls of the sensor joined by \<^verbatim>\<open>and\<close>, which evaluates its
  right operand only when the left one is true. \<open>t1\<close> and \<open>t2\<close> are what the first and
  the second call return.
\<close>

definition at_temperature :: "Temperature_Control \<Rightarrow> real \<Rightarrow> real \<Rightarrow> bool \<times> Temperature_Control" where
  "at_temperature s t1 t2 =
     (let s1 = s\<lparr>effects := effects s @ [SensorRead]\<rparr>
      in if t1 \<ge> 295 / 10 then
           (let s2 = s1\<lparr>effects := effects s1 @ [SensorRead]\<rparr>
            in if t2 \<le> 305 / 10 then (True, s2) else (False, s2))
         else (False, s1))"

definition get_last_temperature :: "Temperature_Control \<Rightarrow> real" where
  "get_last_temperature s = temperatureLast s"

definition activate :: "real \<Rightarrow> Temperature_Control \<Rightarrow> Temperature_Control" where
  "activate t s = (set_controlparam_default (s\<lparr>controlActive := True\<rparr>))\<lparr>timeNext := t\<rparr>"

definition deactivate :: "Temperature_Control \<Rightarrow> Temperature_Control" where
  "deactivate s = set_relayState False (s\<lparr>controlActive := False\<rparr>)"

subsection \<open>Runs\<close>

text \<open>
  The state an outcome leaves the object in, whether the call returned or raised.
\<close>

definition state_of :: "outcome \<Rightarrow> Temperature_Control" where
  "state_of r = (case r of Inl (e, s) \<Rightarrow> s | Inr s \<Rightarrow> s)"

text \<open>
  The driving loop (\<^verbatim>\<open>while ...: temperature_control.update()\<close>): one \<open>update\<close> per
  element of the input list, each element holding the three readings of that tick. An
  exception leaves the loop.
\<close>

fun ticks :: "Temperature_Control \<Rightarrow> (real \<times> real \<times> real) list \<Rightarrow> outcome" where
  "ticks s [] = Inr s"
| "ticks s ((timeNow, timeSched, temperature) # rest) =
     (case update s timeNow timeSched temperature of
        Inl e \<Rightarrow> Inl e
      | Inr s' \<Rightarrow> ticks s' rest)"

text \<open>
  The states an object can be in: it starts with the class defaults, and every public
  method may be called on it, with any readings of the clock and the sensor.
\<close>

inductive reachable :: "Temperature_Control \<Rightarrow> bool" where
  reach_init: "reachable (init t)"
| reach_update: "reachable s \<Longrightarrow> reachable (state_of (update s timeNow timeSched temperature))"
| reach_activate: "reachable s \<Longrightarrow> reachable (activate t s)"
| reach_deactivate: "reachable s \<Longrightarrow> reachable (deactivate s)"
| reach_at_temperature: "reachable s \<Longrightarrow> reachable (snd (at_temperature s t1 t2))"
| reach_enable_print: "reachable s \<Longrightarrow> reachable (enable_print s)"
| reach_disable_print: "reachable s \<Longrightarrow> reachable (disable_print s)"

subsection \<open>Parameter presets and invariants\<close>

text \<open>The two presets of the gain parameters, as predicates on the object.\<close>

definition default_params :: "Temperature_Control \<Rightarrow> bool" where
  "default_params s =
     (kp s = PID_DEFAULT_KP \<and> Ti s = PID_DEFAULT_TI \<and> Td s = PID_DEFAULT_TD)"

definition antiwindup_params :: "Temperature_Control \<Rightarrow> bool" where
  "antiwindup_params s =
     (kp s = PID_ANTIWINDUP_KP \<and> Ti s = PID_ANTIWINDUP_TI \<and> Td s = PID_ANTIWINDUP_TD)"

text \<open>
  The invariant of the relay and the gain: the time step is the class default, and a
  relay that is on goes with a gain in the half-open interval from 0 to 1.
\<close>

definition gain_ok :: "Temperature_Control \<Rightarrow> bool" where
  "gain_ok s = (timeStep s = 1 \<and> (if relayOn s then 0 < k s \<and> k s \<le> 1 else True))"

text \<open>
  The invariant of a run with respect to the step count: below 250 the parameters are
  the default preset; above 250, and at 250 with the relay on, they are the anti-windup
  preset.
\<close>

definition run_ok :: "Temperature_Control \<Rightarrow> bool" where
  "run_ok s =
     ((if stepCount s < 250 then default_params s else True)
      \<and> (if 250 < stepCount s \<or> (stepCount s = 250 \<and> relayOn s)
         then antiwindup_params s else True))"

text \<open>
  An object past step count 250 that has the default preset.
\<close>

definition stuck_default :: "Temperature_Control \<Rightarrow> bool" where
  "stuck_default s = (250 < stepCount s \<and> default_params s)"


subsection \<open>Concrete objects\<close>

text \<open>A new object, activated at time 0.\<close>

definition fresh_active :: Temperature_Control where
  "fresh_active = activate 0 (init 0)"

text \<open>
  The same object after one full heating cycle at a reading of 20 degrees: the
  off-phase tick at time 0 switches the relay on, the tick at time 1 closes the on-phase.
\<close>

definition after_cycle :: Temperature_Control where
  "after_cycle = state_of (update (state_of (update fresh_active 0 0 20)) 1 1 0)"

text \<open>
  A new object, activated, in the middle of an on-phase begun at a reading of 29.9
  degrees.
\<close>

definition heating :: Temperature_Control where
  "heating = state_of (update fresh_active 0 0 (299 / 10))"

text \<open>
  One heating cycle at a reading of 25 degrees: an off-phase tick made exactly at the
  next action time, then the tick that closes the on-phase, again exactly on time.
\<close>

definition heat_cycle :: "Temperature_Control \<Rightarrow> Temperature_Control" where
  "heat_cycle s =
     (let s1 = state_of (update s (timeNext s) (timeNext s) 25)
      in state_of (update s1 (timeNext s1) (timeNext s1) 25))"

text \<open>
  What \<open>n\<close> heating cycles of a new, activated object lead to.
\<close>

definition cycled :: "nat \<Rightarrow> Temperature_Control \<Rightarrow> bool" where
  "cycled n s =
     (reachable s \<and> stepCount s = int n \<and> controlActive s \<and> \<not> relayOn s
      \<and> timeStep s = 1 \<and> setPoint s = 30 \<and> 0 \<le> integral_prior s \<and> error_prior s \<le> 5
      \<and> (if n \<le> 250 then default_params s else antiwindup_params s))"

text \<open>
  An object that has run 251 heating cycles and is then activated again.
\<close>

definition reactivated :: Temperature_Control where
  "reactivated = activate 0 ((heat_cycle ^^ 251) fresh_active)"

text \<open>
  An object activated at step count 249; the same after one heating cycle (step count
  250, relay off); and after the off-phase tick that follows.
\<close>

definition near_switch :: Temperature_Control where
  "near_switch = activate 0 ((init 0)\<lparr>stepCount := 249\<rparr>)"

definition at_switch :: Temperature_Control where
  "at_switch = state_of (ticks near_switch [(0, 0, 25), (1, 1, 0)])"

definition switched :: Temperature_Control where
  "switched = state_of (ticks at_switch [(1, 1, 25)])"

section \<open>Properties\<close>

subsection \<open>The blocks of a tick, one by one\<close>

lemmas helper_defs =
  update_timeNext_def set_controlparam_antiwindup_def set_controlparam_default_def
  update_priors_def set_integral_zero_def set_relayState_def

lemmas const_defs =
  PID_DEFAULT_KP_def PID_DEFAULT_TI_def PID_DEFAULT_TD_def
  PID_ANTIWINDUP_KP_def PID_ANTIWINDUP_TI_def PID_ANTIWINDUP_TD_def

lemma anti_windup_eq:
  "anti_windup s =
     s\<lparr>kp := (if stepCount s = 250 then PID_ANTIWINDUP_KP else kp s),
       Ti := (if stepCount s = 250 then PID_ANTIWINDUP_TI else Ti s),
       Td := (if stepCount s = 250 then PID_ANTIWINDUP_TD else Td s),
       integral := (if stepCount s < 250 then 0 else integral s)\<rparr>"
  by (simp add: anti_windup_def set_integral_zero_def set_controlparam_antiwindup_def)

lemma update_gains_eq:
  "update_gains temperature s =
     (if timeStep s = 0
      then Inl (ZeroDivisionError,
             s\<lparr>error := setPoint s - temperature,
               integral := integral_prior s + (setPoint s - temperature) * timeStep s\<rparr>)
      else Inr (s\<lparr>error := setPoint s - temperature,
               integral := integral_prior s + (setPoint s - temperature) * timeStep s,
               derivative := (setPoint s - temperature - error_prior s) / timeStep s,
               k := kp s * (setPoint s - temperature
                      + Ti s * (integral_prior s + (setPoint s - temperature) * timeStep s)
                      + Td s * ((setPoint s - temperature - error_prior s) / timeStep s))\<rparr>))"
  by (simp add: update_gains_def Let_def)

lemma sample_gains_eq:
  "sample_gains temperature s =
     update_gains temperature
       (s\<lparr>effects := effects s @ [SensorRead], temperatureLast := temperature,
          kp := (if stepCount s = 250 then PID_ANTIWINDUP_KP else kp s),
          Ti := (if stepCount s = 250 then PID_ANTIWINDUP_TI else Ti s),
          Td := (if stepCount s = 250 then PID_ANTIWINDUP_TD else Td s),
          integral := (if stepCount s < 250 then 0 else integral s)\<rparr>)"
  by (simp add: sample_gains_def Let_def anti_windup_eq)

lemma sample_gains_fields:
  assumes "sample_gains temperature s = Inr g"
  shows "error g = setPoint s - temperature"
    and "integral g = integral_prior s + (setPoint s - temperature) * timeStep s"
    and "derivative g = (setPoint s - temperature - error_prior s) / timeStep s"
    and "k g = kp g * (error g + Ti g * integral g + Td g * derivative g)"
    and "kp g = (if stepCount s = 250 then PID_ANTIWINDUP_KP else kp s)"
    and "Ti g = (if stepCount s = 250 then PID_ANTIWINDUP_TI else Ti s)"
    and "Td g = (if stepCount s = 250 then PID_ANTIWINDUP_TD else Td s)"
    and "effects g = effects s @ [SensorRead]"
    and "temperatureLast g = temperature"
    and "timeStep g = timeStep s" and "timeStep s \<noteq> 0"
    and "setPoint g = setPoint s"
    and "error_prior g = error_prior s" and "integral_prior g = integral_prior s"
    and "relayOn g = relayOn s" and "controlActive g = controlActive s"
    and "printData g = printData s" and "df g = df s"
    and "stepCount g = stepCount s" and "timeNext g = timeNext s"
  using assms by (auto simp add: sample_gains_eq update_gains_eq split: if_splits)

lemma sample_gains_returns:
  "timeStep s \<noteq> 0 \<Longrightarrow> \<exists>g. sample_gains temperature s = Inr g"
  by (simp add: sample_gains_eq update_gains_eq)

lemma sample_gains_raises:
  "timeStep s = 0 \<Longrightarrow> \<exists>s'. sample_gains temperature s = Inl (ZeroDivisionError, s')"
  by (simp add: sample_gains_eq update_gains_eq)

lemma update_off_phase:
  assumes "controlActive s" and "\<not> relayOn s" and "timeNext s \<le> timeNow"
    and "sample_gains temperature s = Inr g"
  shows "update s timeNow timeSched temperature =
    Inr (add_data timeNow temperature (check_relay timeSched temperature g))"
  using assms by (simp add: update_def)

lemma add_data_fields:
  "df (add_data timeNow temperature s) = df s @ [(timeNow, temperature, k s)]"
  "effects (add_data timeNow temperature s) = effects s @ (if printData s then [PrintDf] else [])"
  "k (add_data timeNow temperature s) = k s"
  "relayOn (add_data timeNow temperature s) = relayOn s"
  "timeNext (add_data timeNow temperature s) = timeNext s"
  "error (add_data timeNow temperature s) = error s"
  "integral (add_data timeNow temperature s) = integral s"
  "error_prior (add_data timeNow temperature s) = error_prior s"
  "integral_prior (add_data timeNow temperature s) = integral_prior s"
  "stepCount (add_data timeNow temperature s) = stepCount s"
  "timeStep (add_data timeNow temperature s) = timeStep s"
  "kp (add_data timeNow temperature s) = kp s"
  "Ti (add_data timeNow temperature s) = Ti s"
  "Td (add_data timeNow temperature s) = Td s"
  "controlActive (add_data timeNow temperature s) = controlActive s"
  "setPoint (add_data timeNow temperature s) = setPoint s"
  "printData (add_data timeNow temperature s) = printData s"
  "temperatureLast (add_data timeNow temperature s) = temperatureLast s"
  "derivative (add_data timeNow temperature s) = derivative s"
  by (simp_all add: add_data_def Let_def)

lemma check_relay_above:
  assumes "setPoint s \<le> temperature"
  shows "check_relay timeSched temperature s =
    s\<lparr>k := 0, relayOn := False, effects := effects s @ [RelayOff],
      timeNext := timeSched + timeStep s, error_prior := error s, integral_prior := integral s\<rparr>"
  using assms by (simp add: check_relay_def helper_defs Let_def)

lemma check_relay_nonpositive:
  assumes "temperature < setPoint s" and "k s \<le> 0"
  shows "check_relay timeSched temperature s = s\<lparr>k := 0, timeNext := timeSched + timeStep s\<rparr>"
  using assms by (simp add: check_relay_def helper_defs Let_def)

lemma check_relay_proportioned:
  assumes "temperature < setPoint s" and "0 < k s" and "k s < 1"
  shows "check_relay timeSched temperature s =
    s\<lparr>relayOn := True, effects := effects s @ [RelayOn], timeNext := timeSched + timeStep s * k s\<rparr>"
  using assms by (simp add: check_relay_def helper_defs Let_def)

lemma check_relay_saturated:
  assumes "temperature < setPoint s" and "1 \<le> k s"
  shows "check_relay timeSched temperature s =
    s\<lparr>k := 1, relayOn := True, effects := effects s @ [RelayOn], timeNext := timeSched + timeStep s\<rparr>"
  using assms by (simp add: check_relay_def helper_defs Let_def)

subsection \<open>The concrete objects, evaluated\<close>

lemma fresh_active_eq:
  "fresh_active = \<lparr> printData = False, controlActive = True,
     kp = 9 / 100, Ti = 1 / 1000000, Td = 9,
     k = 0, integral = 0, integral_prior = 0, derivative = 0, error = 0, error_prior = 0,
     stepCount = 0, timeStep = 1, timeNext = 0, temperatureLast = 0, relayOn = False,
     df = [], setPoint = 30, effects = [] \<rparr>"
  by (simp add: fresh_active_def activate_def init_def set_controlparam_default_def const_defs)

lemma fresh_active_tick:
  "update fresh_active 0 0 temperature =
    Inr (add_data 0 temperature (check_relay 0 temperature
      (fresh_active\<lparr>effects := [SensorRead], temperatureLast := temperature,
         error := 30 - temperature, integral := 30 - temperature,
         derivative := 30 - temperature,
         k := 9 / 100 * (30 - temperature + 1 / 1000000 * (30 - temperature)
                + 9 * (30 - temperature))\<rparr>)))"
  by (simp add: update_def sample_gains_eq update_gains_eq fresh_active_eq)

lemma heating_eq:
  "heating = \<lparr> printData = False, controlActive = True,
     kp = 9 / 100, Ti = 1 / 1000000, Td = 9,
     k = 90000009 / 1000000000, integral = 1 / 10, integral_prior = 0,
     derivative = 1 / 10, error = 1 / 10, error_prior = 0,
     stepCount = 0, timeStep = 1, timeNext = 90000009 / 1000000000,
     temperatureLast = 299 / 10, relayOn = True,
     df = [(0, 299 / 10, 90000009 / 1000000000)], setPoint = 30,
     effects = [SensorRead, RelayOn] \<rparr>"
  unfolding heating_def fresh_active_tick state_of_def
  by (simp add: check_relay_def add_data_def helper_defs Let_def fresh_active_eq)

lemma update_idle:
  assumes "\<not> controlActive s \<or> timeNow < timeNext s"
  shows "update s timeNow timeSched temperature = Inr s"
  using assms by (auto simp add: update_def)

lemma first_cycle_on:
  "state_of (update fresh_active 0 0 20) =
    \<lparr> printData = False, controlActive = True,
     kp = 9 / 100, Ti = 1 / 1000000, Td = 9,
     k = 1, integral = 10, integral_prior = 0, derivative = 10, error = 10, error_prior = 0,
     stepCount = 0, timeStep = 1, timeNext = 1, temperatureLast = 20, relayOn = True,
     df = [(0, 20, 1)], setPoint = 30, effects = [SensorRead, RelayOn] \<rparr>"
  unfolding fresh_active_tick state_of_def
  by (simp add: check_relay_def add_data_def helper_defs Let_def fresh_active_eq)

lemma after_cycle_eq:
  "after_cycle = \<lparr> printData = False, controlActive = True,
     kp = 9 / 100, Ti = 1 / 1000000, Td = 9,
     k = 1, integral = 10, integral_prior = 10, derivative = 10, error = 10, error_prior = 10,
     stepCount = 1, timeStep = 1, timeNext = 1, temperatureLast = 20, relayOn = False,
     df = [(0, 20, 1)], setPoint = 30, effects = [SensorRead, RelayOn, RelayOff] \<rparr>"
  unfolding after_cycle_def first_cycle_on
  by (simp add: update_def state_of_def helper_defs Let_def)

lemma after_cycle_gains:
  "sample_gains 29 after_cycle =
    Inr (after_cycle\<lparr>effects := [SensorRead, RelayOn, RelayOff, SensorRead],
      temperatureLast := 29, error := 1, integral := 11, derivative := - 9,
      k := 9 / 100 * (1 + 1 / 1000000 * 11 + 9 * (- 9))\<rparr>)"
  by (simp add: sample_gains_eq update_gains_eq after_cycle_eq)

lemma scenario_A_tick:
  "update fresh_active 0 0 25 =
    Inr (fresh_active\<lparr>effects := [SensorRead, RelayOn], temperatureLast := 25,
      error := 5, integral := 5, derivative := 5, k := 1, relayOn := True, timeNext := 1,
      df := [(0, 25, 1)]\<rparr>)"
  unfolding fresh_active_tick
  by (simp add: check_relay_def add_data_def helper_defs Let_def fresh_active_eq)

lemma warmup_gains:
  "sample_gains (299 / 10) fresh_active =
     Inr (fresh_active\<lparr>effects := [SensorRead], temperatureLast := 299 / 10,
        error := 1 / 10, integral := 1 / 10, derivative := 1 / 10,
        k := 90000009 / 1000000000\<rparr>)"
  by (simp add: sample_gains_eq update_gains_eq fresh_active_eq)

subsection \<open>Off-phase tick at or above the set point\<close>

text \<open>
  Claim C3. An off-phase tick (control active, relay off, the next action time reached)
  whose sensor reading is at or above the set point returns with the gain forced to 0,
  the relay commanded off (\<open>RelayOff\<close> is sent after the sensor read), the priors
  committed to the error and the integral this tick computed, and the next action time
  one time step after the clock value read when scheduling (\<open>timeSched\<close>; the tick of
  the specification has one clock value, the case \<open>timeSched = timeNow\<close>). One row
  with gain 0 is added to the data frame. The tick computes its gains first, so the
  time step is not zero.
\<close>

theorem off_phase_at_or_above_set_point:
  assumes "controlActive s" and "\<not> relayOn s" and "timeNext s \<le> timeNow"
    and "setPoint s \<le> temperature" and "timeStep s \<noteq> 0"
  shows "\<exists>s'. update s timeNow timeSched temperature = Inr s'
    \<and> k s' = 0
    \<and> \<not> relayOn s'
    \<and> effects s' = effects s @ [SensorRead, RelayOff] @ (if printData s then [PrintDf] else [])
    \<and> error s' = setPoint s - temperature
    \<and> integral s' = integral_prior s + (setPoint s - temperature) * timeStep s
    \<and> error_prior s' = error s'
    \<and> integral_prior s' = integral s'
    \<and> timeNext s' = timeSched + timeStep s
    \<and> df s' = df s @ [(timeNow, temperature, 0)]"
proof -
  from assms(5) obtain g where g: "sample_gains temperature s = Inr g"
    using sample_gains_returns by blast
  note f = sample_gains_fields [OF g]
  have above: "setPoint g \<le> temperature" using assms(4) by (simp add: f)
  have "update s timeNow timeSched temperature =
      Inr (add_data timeNow temperature (check_relay timeSched temperature g))"
    using assms(1-3) g by (rule update_off_phase)
  then show ?thesis
    by (simp add: add_data_fields check_relay_above [OF above] f(1,2,8,10,12,17,18))
qed

theorem off_phase_at_or_above_set_point_witness:
  "\<exists>s'. update fresh_active 0 0 (305 / 10) = Inr s'
    \<and> k s' = 0 \<and> \<not> relayOn s' \<and> effects s' = [SensorRead, RelayOff]
    \<and> error_prior s' = - (1 / 2) \<and> integral_prior s' = - (1 / 2) \<and> timeNext s' = 1"
proof -
  have h: "controlActive fresh_active" "\<not> relayOn fresh_active" "timeNext fresh_active \<le> 0"
    "setPoint fresh_active \<le> 305 / 10" "timeStep fresh_active \<noteq> 0"
    by (simp_all add: fresh_active_eq)
  have v: "printData fresh_active = False" "effects fresh_active = []" "setPoint fresh_active = 30"
    "integral_prior fresh_active = 0" "timeStep fresh_active = 1"
    by (simp_all add: fresh_active_eq)
  from off_phase_at_or_above_set_point [OF h, of 0]
  show ?thesis unfolding v by auto
qed

subsection \<open>Closing the on-phase\<close>

text \<open>
  Claim C5. A tick with the relay on and the next action time reached commands the relay
  off, whatever the gain, adds exactly 1 to the step count, commits the priors to the
  stored error and integral, and schedules the next action \<open>timeStep * (1 - k)\<close> after
  the clock value read when scheduling. The only command sent is \<open>RelayOff\<close>: the
  sensor is not read, and the data frame gets no row.
\<close>

theorem on_phase_closing:
  assumes "controlActive s" and "relayOn s" and "timeNext s \<le> timeNow"
  shows "\<exists>s'. update s timeNow timeSched temperature = Inr s'
    \<and> \<not> relayOn s'
    \<and> effects s' = effects s @ [RelayOff]
    \<and> stepCount s' = stepCount s + 1
    \<and> error s' = error s \<and> integral s' = integral s
    \<and> error_prior s' = error s' \<and> integral_prior s' = integral s'
    \<and> k s' = k s
    \<and> timeNext s' = timeSched + timeStep s * (1 - k s)
    \<and> df s' = df s
    \<and> temperatureLast s' = temperatureLast s"
  using assms by (simp add: update_def helper_defs Let_def)

theorem on_phase_closing_witness:
  "\<exists>s'. update heating 1 2 0 = Inr s'
    \<and> \<not> relayOn s' \<and> effects s' = [SensorRead, RelayOn, RelayOff]
    \<and> stepCount s' = 1 \<and> error_prior s' = 1 / 10 \<and> integral_prior s' = 1 / 10
    \<and> timeNext s' = 2 + 1 * (1 - 90000009 / 1000000000)
    \<and> df s' = [(0, 299 / 10, 90000009 / 1000000000)]"
proof -
  have h: "controlActive heating" "relayOn heating" "timeNext heating \<le> 1"
    by (simp_all add: heating_eq)
  have v: "effects heating = [SensorRead, RelayOn]" "stepCount heating = 0"
    "error heating = 1 / 10" "integral heating = 1 / 10" "timeStep heating = 1"
    "k heating = 90000009 / 1000000000" "df heating = [(0, 299 / 10, 90000009 / 1000000000)]"
    by (simp_all add: heating_eq)
  from on_phase_closing [OF h, of 2 0]
  show ?thesis unfolding v by auto
qed


subsection \<open>Off-phase tick below the set point with a gain that is not positive\<close>

text \<open>
  Claim C4, as amended. An off-phase tick whose reading is below the set point and whose
  computed gain \<open>k g\<close> (the gain \<^verbatim>\<open>__update_gains\<close> stored, \<open>g\<close> being the object after
  lines 102 to 114) is at most 0 returns with the gain set to exactly 0 and the next
  action time one time step after the clock value read when scheduling; the priors keep
  the values they had before the tick. No relay command is sent: the only command of the
  tick is the sensor read (and the print, when printing is enabled), and \<open>relayOn\<close>
  stays false.
\<close>

theorem off_phase_below_set_point_nonpositive_gain:
  assumes "controlActive s" and "\<not> relayOn s" and "timeNext s \<le> timeNow"
    and "temperature < setPoint s"
    and "sample_gains temperature s = Inr g" and "k g \<le> 0"
  shows "\<exists>s'. update s timeNow timeSched temperature = Inr s'
    \<and> k s' = 0
    \<and> \<not> relayOn s'
    \<and> effects s' = effects s @ [SensorRead] @ (if printData s then [PrintDf] else [])
    \<and> timeNext s' = timeSched + timeStep s
    \<and> error_prior s' = error_prior s
    \<and> integral_prior s' = integral_prior s
    \<and> df s' = df s @ [(timeNow, temperature, 0)]"
proof -
  note f = sample_gains_fields [OF assms(5)]
  have below: "temperature < setPoint g" using assms(4) by (simp add: f)
  have "update s timeNow timeSched temperature =
      Inr (add_data timeNow temperature (check_relay timeSched temperature g))"
    using assms(1-3,5) by (rule update_off_phase)
  then show ?thesis
    using assms(2)
    by (simp add: add_data_fields check_relay_nonpositive [OF below assms(6)] f)
qed

theorem off_phase_below_set_point_nonpositive_gain_witness:
  "\<exists>s'. update after_cycle 1 1 29 = Inr s'
    \<and> k s' = 0 \<and> \<not> relayOn s'
    \<and> effects s' = [SensorRead, RelayOn, RelayOff, SensorRead]
    \<and> timeNext s' = 2 \<and> error_prior s' = 10 \<and> integral_prior s' = 10
    \<and> df s' = [(0, 20, 1), (1, 29, 0)]"
proof -
  have h: "controlActive after_cycle" "\<not> relayOn after_cycle" "timeNext after_cycle \<le> 1"
    "29 < setPoint after_cycle"
    by (simp_all add: after_cycle_eq)
  have g: "k (after_cycle\<lparr>effects := [SensorRead, RelayOn, RelayOff, SensorRead],
      temperatureLast := 29, error := 1, integral := 11, derivative := - 9,
      k := 9 / 100 * (1 + 1 / 1000000 * 11 + 9 * (- 9))\<rparr>) \<le> 0"
    by simp
  have v: "effects after_cycle = [SensorRead, RelayOn, RelayOff]" "printData after_cycle = False"
    "timeStep after_cycle = 1" "error_prior after_cycle = 10" "integral_prior after_cycle = 10"
    "df after_cycle = [(0, 20, 1)]"
    by (simp_all add: after_cycle_eq)
  from off_phase_below_set_point_nonpositive_gain [OF h after_cycle_gains g, of 1]
  show ?thesis unfolding v by auto
qed

text \<open>
  Claim C4 as stated says the actuator is commanded off on this branch. On the object
  \<open>after_cycle\<close>, a reading of 29 gives a gain below 0; the tick returns, and the
  commands it adds to the three sent before it are the sensor read alone.
\<close>

theorem nonpositive_gain_sends_no_relay_command:
  "controlActive after_cycle \<and> \<not> relayOn after_cycle \<and> timeNext after_cycle \<le> 1
   \<and> 29 < setPoint after_cycle
   \<and> k (state_of (sample_gains 29 after_cycle)) \<le> 0
   \<and> update after_cycle 1 1 29 = Inr (state_of (update after_cycle 1 1 29))
   \<and> effects after_cycle = [SensorRead, RelayOn, RelayOff]
   \<and> effects (state_of (update after_cycle 1 1 29)) = effects after_cycle @ [SensorRead]
   \<and> RelayOff \<notin> set (drop (length (effects after_cycle))
        (effects (state_of (update after_cycle 1 1 29))))"
proof -
  have h: "controlActive after_cycle" "\<not> relayOn after_cycle" "timeNext after_cycle \<le> 1"
    "29 < setPoint after_cycle" "effects after_cycle = [SensorRead, RelayOn, RelayOff]"
    by (simp_all add: after_cycle_eq)
  have g: "k (state_of (sample_gains 29 after_cycle)) \<le> 0"
    by (simp add: after_cycle_gains state_of_def)
  have u: "update after_cycle 1 1 29 =
      Inr (after_cycle\<lparr>effects := [SensorRead, RelayOn, RelayOff, SensorRead],
        temperatureLast := 29, error := 1, integral := 11, derivative := - 9,
        k := 0, timeNext := 2, df := [(0, 20, 1), (1, 29, 0)]\<rparr>)"
    unfolding update_off_phase [OF h(1-3) after_cycle_gains]
    by (simp add: check_relay_def add_data_def helper_defs Let_def after_cycle_eq)
  have e: "effects (state_of (update after_cycle 1 1 29)) =
      [SensorRead, RelayOn, RelayOff, SensorRead]"
    by (simp add: u state_of_def)
  have r: "update after_cycle 1 1 29 = Inr (state_of (update after_cycle 1 1 29))"
    by (simp add: u state_of_def)
  show ?thesis
    using g r by (simp add: h e)
qed

subsection \<open>Ticks that do nothing\<close>

text \<open>
  Claim C6. While control is inactive, or while every tick's clock value is before the
  next action time, any number of ticks in a row return the object they were given:
  every field is as before, and so are the commands sent (\<open>effects\<close>: no relay
  command, no sensor read) and the data frame (\<open>df\<close>: no row).
\<close>

theorem idle_ticks_change_nothing:
  assumes "\<not> controlActive s \<or> (\<forall>x \<in> set inputs. fst x < timeNext s)"
  shows "ticks s inputs = Inr s"
  using assms
proof (induction inputs)
  case Nil
  show ?case by simp
next
  case (Cons x rest)
  obtain timeNow timeSched temperature where x: "x = (timeNow, timeSched, temperature)"
    by (cases x) auto
  from Cons.prems have idle: "\<not> controlActive s \<or> timeNow < timeNext s"
    by (auto simp add: x)
  from Cons.prems have rest: "\<not> controlActive s \<or> (\<forall>y \<in> set rest. fst y < timeNext s)"
    by auto
  show ?case
    by (simp add: x update_idle [OF idle] Cons.IH [OF rest])
qed

theorem idle_ticks_change_nothing_witness:
  "ticks heating [(1 / 100, 1 / 100, 25), (5 / 100, 6 / 100, 31)] = Inr heating
   \<and> ticks (init 0) [(5, 5, 25), (6, 7, 31)] = Inr (init 0)"
proof -
  have a: "\<not> controlActive heating
      \<or> (\<forall>x \<in> set [(1 / 100, 1 / 100, 25), (5 / 100, 6 / 100, 31 :: real)]. fst x < timeNext heating)"
    by (simp add: heating_eq)
  have b: "\<not> controlActive (init 0)
      \<or> (\<forall>x \<in> set [(5, 5, 25), (6, 7, 31 :: real)]. fst x < timeNext (init 0))"
    by (simp add: init_def)
  from idle_ticks_change_nothing [OF a] idle_ticks_change_nothing [OF b]
  show ?thesis by simp
qed

subsection \<open>Scenario A\<close>

text \<open>
  Claim C7, as amended. With set point 30, default gain parameters, step count 0, zeroed
  priors and time step 1, an off-phase tick at a reading of 25 switches the relay on
  with the gain clamped to 1, and the next action time is exactly one time step after
  the clock value read when scheduling: a full on-phase, not a proportioned one. (The
  derivative term alone gives \<open>0.09 * 9 * 5\<close>, above 1.)
\<close>

theorem scenario_A_saturates:
  assumes "controlActive s" and "\<not> relayOn s" and "timeNext s \<le> timeNow"
    and "setPoint s = 30" and "timeStep s = 1" and "stepCount s = 0"
    and "kp s = PID_DEFAULT_KP" and "Ti s = PID_DEFAULT_TI" and "Td s = PID_DEFAULT_TD"
    and "error_prior s = 0" and "integral_prior s = 0"
  shows "\<exists>s'. update s timeNow timeSched 25 = Inr s'
    \<and> relayOn s'
    \<and> k s' = 1
    \<and> timeNext s' - timeSched = 1
    \<and> effects s' = effects s @ [SensorRead, RelayOn] @ (if printData s then [PrintDf] else [])"
proof -
  have "timeStep s \<noteq> 0" using assms(5) by simp
  then obtain g where g: "sample_gains 25 s = Inr g"
    using sample_gains_returns by blast
  note f = sample_gains_fields [OF g]
  have below: "25 < setPoint g" using assms(4) by (simp add: f)
  have "k g = 9 / 100 * (5 + 1 / 1000000 * 5 + 9 * 5)"
    by (simp add: f assms const_defs)
  then have sat: "1 \<le> k g" by simp
  have "update s timeNow timeSched 25 =
      Inr (add_data timeNow 25 (check_relay timeSched 25 g))"
    using assms(1-3) g by (rule update_off_phase)
  then show ?thesis
    by (simp add: add_data_fields check_relay_saturated [OF below sat] f(8,10,17) assms(5))
qed

theorem scenario_A_saturates_witness:
  "\<exists>s'. update fresh_active 0 0 25 = Inr s'
    \<and> relayOn s' \<and> k s' = 1 \<and> timeNext s' - 0 = 1 \<and> effects s' = [SensorRead, RelayOn]"
proof -
  have h: "controlActive fresh_active" "\<not> relayOn fresh_active" "timeNext fresh_active \<le> 0"
    "setPoint fresh_active = 30" "timeStep fresh_active = 1" "stepCount fresh_active = 0"
    "kp fresh_active = PID_DEFAULT_KP" "Ti fresh_active = PID_DEFAULT_TI"
    "Td fresh_active = PID_DEFAULT_TD"
    "error_prior fresh_active = 0" "integral_prior fresh_active = 0"
    by (simp_all add: fresh_active_eq const_defs)
  have v: "effects fresh_active = []" "printData fresh_active = False"
    by (simp_all add: fresh_active_eq)
  from scenario_A_saturates [OF h, of 0]
  show ?thesis unfolding v by auto
qed

text \<open>
  Claim C7 as stated expects the wait to lie strictly between 0 and 1. On the new,
  activated object the wait is 1.
\<close>

theorem scenario_A_wait_is_full_time_step:
  "setPoint fresh_active = 30 \<and> timeStep fresh_active = 1 \<and> stepCount fresh_active = 0
   \<and> kp fresh_active = PID_DEFAULT_KP \<and> Ti fresh_active = PID_DEFAULT_TI
   \<and> Td fresh_active = PID_DEFAULT_TD
   \<and> error_prior fresh_active = 0 \<and> integral_prior fresh_active = 0
   \<and> controlActive fresh_active \<and> \<not> relayOn fresh_active \<and> timeNext fresh_active \<le> 0
   \<and> update fresh_active 0 0 25 = Inr (state_of (update fresh_active 0 0 25))
   \<and> relayOn (state_of (update fresh_active 0 0 25))
   \<and> timeNext (state_of (update fresh_active 0 0 25)) - 0 = 1
   \<and> \<not> (timeNext (state_of (update fresh_active 0 0 25)) - 0 < 1)"
  unfolding scenario_A_tick
  by (simp add: state_of_def fresh_active_eq const_defs)

subsection \<open>Division by the time step\<close>

text \<open>
  Claim C8, as amended. \<^verbatim>\<open>__update_gains\<close> raises \<^verbatim>\<open>ZeroDivisionError\<close> when the time
  step is 0, with \<open>error\<close> and \<open>integral\<close> already assigned and \<open>derivative\<close> and
  \<open>k\<close> as before; for every other time step, negative ones included, it returns the
  four values of the PID law.
\<close>

theorem gains_raise_exactly_at_zero_time_step:
  "(timeStep s = 0 \<longrightarrow>
      (\<exists>s'. update_gains temperature s = Inl (ZeroDivisionError, s')
        \<and> error s' = setPoint s - temperature \<and> integral s' = integral_prior s
        \<and> derivative s' = derivative s \<and> k s' = k s))
   \<and> (timeStep s \<noteq> 0 \<longrightarrow>
      (\<exists>g. update_gains temperature s = Inr g
        \<and> error g = setPoint s - temperature
        \<and> integral g = integral_prior s + error g * timeStep s
        \<and> derivative g = (error g - error_prior s) / timeStep s
        \<and> k g = kp s * (error g + Ti s * integral g + Td s * derivative g)))"
  by (simp add: update_gains_eq)

theorem gains_raise_exactly_at_zero_time_step_witness:
  "timeStep ((init 0)\<lparr>timeStep := 0\<rparr>) = 0
   \<and> (\<exists>s'. update_gains 25 ((init 0)\<lparr>timeStep := 0\<rparr>) = Inl (ZeroDivisionError, s')
        \<and> error s' = 5 \<and> integral s' = 0 \<and> derivative s' = 0 \<and> k s' = 0)
   \<and> timeStep ((init 0)\<lparr>timeStep := 2\<rparr>) \<noteq> 0
   \<and> (\<exists>g. update_gains 25 ((init 0)\<lparr>timeStep := 2\<rparr>) = Inr g
        \<and> error g = 5 \<and> integral g = 10 \<and> derivative g = 5 / 2)"
proof -
  have z: "timeStep ((init 0)\<lparr>timeStep := 0\<rparr>) = 0"
    and n: "timeStep ((init 0)\<lparr>timeStep := 2\<rparr>) \<noteq> 0"
    by simp_all
  have v: "setPoint ((init 0)\<lparr>timeStep := 0\<rparr>) = 30" "integral_prior ((init 0)\<lparr>timeStep := 0\<rparr>) = 0"
    "derivative ((init 0)\<lparr>timeStep := 0\<rparr>) = 0" "k ((init 0)\<lparr>timeStep := 0\<rparr>) = 0"
    "setPoint ((init 0)\<lparr>timeStep := 2\<rparr>) = 30" "integral_prior ((init 0)\<lparr>timeStep := 2\<rparr>) = 0"
    "error_prior ((init 0)\<lparr>timeStep := 2\<rparr>) = 0" "timeStep ((init 0)\<lparr>timeStep := 2\<rparr>) = 2"
    by (simp_all add: init_def)
  from gains_raise_exactly_at_zero_time_step [of "(init 0)\<lparr>timeStep := 0\<rparr>" 25]
    gains_raise_exactly_at_zero_time_step [of "(init 0)\<lparr>timeStep := 2\<rparr>" 25]
  show ?thesis unfolding v using z by auto
qed

text \<open>
  Claim C8 as stated has the computation fail for every time step at or below 0. With
  time step \<open>-1\<close> it returns.
\<close>

theorem negative_time_step_returns:
  "timeStep ((init 0)\<lparr>timeStep := - 1\<rparr>) \<le> 0
   \<and> update_gains 25 ((init 0)\<lparr>timeStep := - 1\<rparr>) =
      Inr ((init 0)\<lparr>timeStep := - 1, error := 5, integral := - 5, derivative := - 5,
             k := - (72000009 / 20000000)\<rparr>)"
  by (simp add: update_gains_eq init_def const_defs)

subsection \<open>The temperature test\<close>

text \<open>
  Claim C10, as amended. \<^verbatim>\<open>at_temperature\<close> returns true exactly when the first
  reading is at least 29.5 and the second reading is at most 30.5 (so, when both
  readings agree, exactly when the reading lies in the closed interval from 29.5 to
  30.5). The bounds are constants: the result does not depend on the set point. The
  sensor is read once when the first reading is below 29.5, and twice otherwise; no
  field but the record of commands changes.
\<close>

theorem at_temperature_result:
  "fst (at_temperature s t1 t2) = (295 / 10 \<le> t1 \<and> t2 \<le> 305 / 10)
   \<and> snd (at_temperature s t1 t2) =
       s\<lparr>effects := effects s @ (if 295 / 10 \<le> t1 then [SensorRead, SensorRead] else [SensorRead])\<rparr>
   \<and> fst (at_temperature (s\<lparr>setPoint := x\<rparr>) t1 t2) = fst (at_temperature s t1 t2)"
  by (simp add: at_temperature_def Let_def)

text \<open>
  Claim C10 as stated has the sensor read twice. At a first reading of 20 it is read
  once.
\<close>

theorem at_temperature_reads_once_below_lower_bound:
  "at_temperature (init 0) 20 30 = (False, (init 0)\<lparr>effects := [SensorRead]\<rparr>)
   \<and> length (filter (\<lambda>e. e = SensorRead) (effects (snd (at_temperature (init 0) 20 30)))) = 1
   \<and> length (filter (\<lambda>e. e = SensorRead) (effects (snd (at_temperature (init 0) 20 30)))) \<noteq> 2"
  by (simp add: at_temperature_def Let_def init_def)

subsection \<open>The integral during warm-up\<close>

text \<open>
  Claim C1 fails on the code. \<^verbatim>\<open>__set_integral_zero\<close> runs before
  \<^verbatim>\<open>__update_gains\<close>, which assigns \<open>integral\<close> anew from \<open>integral_prior\<close>: the
  zero is overwritten before the gain is computed. On the new, activated object (step
  count 0, priors 0) a tick at a reading of 29.9 computes the integral 0.1 and the gain
  0.090000009, where the claim's formula with a zero integral gives 0.09; the relay goes
  on with that gain, and the tick closing the on-phase commits 0.1 to
  \<open>integral_prior\<close>.
\<close>

theorem warmup_integral_is_overwritten:
  "stepCount fresh_active < 250
   \<and> controlActive fresh_active \<and> \<not> relayOn fresh_active \<and> timeNext fresh_active \<le> 0
   \<and> integral_prior fresh_active = 0
   \<and> sample_gains (299 / 10) fresh_active = Inr (state_of (sample_gains (299 / 10) fresh_active))
   \<and> integral (state_of (sample_gains (299 / 10) fresh_active)) = 1 / 10
   \<and> kp (state_of (sample_gains (299 / 10) fresh_active))
        * (error (state_of (sample_gains (299 / 10) fresh_active))
           + Ti (state_of (sample_gains (299 / 10) fresh_active)) * 0
           + Td (state_of (sample_gains (299 / 10) fresh_active))
               * derivative (state_of (sample_gains (299 / 10) fresh_active))) = 9 / 100
   \<and> k (state_of (sample_gains (299 / 10) fresh_active)) = 90000009 / 1000000000
   \<and> heating = state_of (update fresh_active 0 0 (299 / 10))
   \<and> k heating = 90000009 / 1000000000
   \<and> integral heating = 1 / 10
   \<and> integral_prior (state_of (update heating 1 1 0)) = 1 / 10"
proof -
  let ?g = "state_of (sample_gains (299 / 10) fresh_active)"
  have a: "?g = fresh_active\<lparr>effects := [SensorRead], temperatureLast := 299 / 10,
        error := 1 / 10, integral := 1 / 10, derivative := 1 / 10,
        k := 90000009 / 1000000000\<rparr>"
    by (simp add: warmup_gains state_of_def)
  have c1: "stepCount fresh_active < 250" "controlActive fresh_active"
    "\<not> relayOn fresh_active" "timeNext fresh_active \<le> 0" "integral_prior fresh_active = 0"
    by (simp_all add: fresh_active_eq)
  have c2: "sample_gains (299 / 10) fresh_active = Inr ?g"
    unfolding a by (rule warmup_gains)
  have c3: "integral ?g = 1 / 10" "k ?g = 90000009 / 1000000000"
    unfolding a by simp_all
  have c4: "kp ?g * (error ?g + Ti ?g * 0 + Td ?g * derivative ?g) = 9 / 100"
    unfolding a by (simp add: fresh_active_eq)
  have c5: "heating = state_of (update fresh_active 0 0 (299 / 10))"
    by (simp add: heating_def)
  have c6: "k heating = 90000009 / 1000000000" "integral heating = 1 / 10"
    by (simp_all add: heating_eq)
  have c7: "integral_prior (state_of (update heating 1 1 0)) = 1 / 10"
    by (simp add: update_def heating_eq helper_defs Let_def state_of_def)
  show ?thesis
    by (intro conjI) (fact c1 c2 c3 c4 c5 c6 c7)+
qed


subsection \<open>The cases of a tick\<close>

lemma update_on_phase:
  assumes "controlActive s" and "relayOn s" and "timeNext s \<le> timeNow"
  shows "update s timeNow timeSched temperature =
    Inr (s\<lparr>relayOn := False, effects := effects s @ [RelayOff], stepCount := stepCount s + 1,
      error_prior := error s, integral_prior := integral s,
      timeNext := timeSched + timeStep s * (1 - k s)\<rparr>)"
  using assms by (simp add: update_def helper_defs Let_def)

lemma update_raises:
  assumes "controlActive s" and "\<not> relayOn s" and "timeNext s \<le> timeNow"
    and "sample_gains temperature s = Inl e"
  shows "update s timeNow timeSched temperature = Inl e"
  using assms by (simp add: update_def)

lemma sample_gains_raise_fields:
  assumes "sample_gains temperature s = Inl (e, s')"
  shows "relayOn s' = relayOn s" and "timeStep s' = timeStep s" and "stepCount s' = stepCount s"
    and "kp s' = (if stepCount s = 250 then PID_ANTIWINDUP_KP else kp s)"
    and "Ti s' = (if stepCount s = 250 then PID_ANTIWINDUP_TI else Ti s)"
    and "Td s' = (if stepCount s = 250 then PID_ANTIWINDUP_TD else Td s)"
    and "k s' = k s" and "controlActive s' = controlActive s"
  using assms by (auto simp add: sample_gains_eq update_gains_eq split: if_splits)

lemma check_relay_fields:
  "timeStep (check_relay timeSched temperature s) = timeStep s"
  "stepCount (check_relay timeSched temperature s) = stepCount s"
  "kp (check_relay timeSched temperature s) = kp s"
  "Ti (check_relay timeSched temperature s) = Ti s"
  "Td (check_relay timeSched temperature s) = Td s"
  "controlActive (check_relay timeSched temperature s) = controlActive s"
  "setPoint (check_relay timeSched temperature s) = setPoint s"
  "error (check_relay timeSched temperature s) = error s"
  "integral (check_relay timeSched temperature s) = integral s"
  by (simp_all add: check_relay_def helper_defs Let_def)

lemma check_relay_gain:
  "\<not> relayOn s \<Longrightarrow> relayOn (check_relay timeSched temperature s) \<Longrightarrow>
     0 < k (check_relay timeSched temperature s) \<and> k (check_relay timeSched temperature s) \<le> 1"
  by (simp add: check_relay_def helper_defs Let_def split: if_splits)

lemma check_relay_on:
  "temperature < setPoint s \<Longrightarrow> 0 < k s \<Longrightarrow> relayOn (check_relay timeSched temperature s)"
  by (simp add: check_relay_def helper_defs Let_def)

text \<open>What a tick can be: idle, closing the on-phase, an off-phase tick, or a raise.\<close>

lemma update_cases:
  obtains (idle) "update s timeNow timeSched temperature = Inr s"
  | (closing) "controlActive s" "relayOn s" "timeNext s \<le> timeNow"
  | (sampling) g where "controlActive s" "\<not> relayOn s" "timeNext s \<le> timeNow"
      "sample_gains temperature s = Inr g"
      "update s timeNow timeSched temperature =
         Inr (add_data timeNow temperature (check_relay timeSched temperature g))"
  | (raising) e s' where "controlActive s" "\<not> relayOn s" "timeNext s \<le> timeNow"
      "sample_gains temperature s = Inl (e, s')"
      "update s timeNow timeSched temperature = Inl (e, s')"
proof (cases "\<not> controlActive s \<or> timeNow < timeNext s")
  case True
  then show ?thesis using idle update_idle by blast
next
  case False
  then have a: "controlActive s" "timeNext s \<le> timeNow" by auto
  show ?thesis
  proof (cases "relayOn s")
    case True
    with a show ?thesis using closing by blast
  next
    case off: False
    show ?thesis
    proof (cases "sample_gains temperature s")
      case (Inl p)
      obtain e s' where p: "p = (e, s')" by (cases p) auto
      show ?thesis
        using raising [of e s'] a off Inl update_raises [OF a(1) off a(2), of temperature p timeSched]
        by (simp add: p)
    next
      case (Inr g)
      show ?thesis
        using sampling [of g] a off Inr update_off_phase [OF a(1) off a(2) Inr, of timeSched]
        by simp
    qed
  qed
qed

subsection \<open>The gain while the relay is on\<close>

lemma gain_ok_update:
  assumes "gain_ok s"
  shows "gain_ok (state_of (update s timeNow timeSched temperature))"
proof (cases rule: update_cases
    [where s = s and timeNow = timeNow and timeSched = timeSched and temperature = temperature])
  case idle
  then show ?thesis using assms by (simp add: state_of_def)
next
  case closing
  then show ?thesis
    using assms by (simp add: update_on_phase state_of_def gain_ok_def)
next
  case (sampling g)
  note f = sample_gains_fields [OF sampling(4)]
  have "\<not> relayOn g" using sampling(2) by (simp add: f)
  from check_relay_gain [OF this, of timeSched temperature] assms
  show ?thesis
    by (simp add: sampling(5) state_of_def gain_ok_def add_data_fields check_relay_fields f(10))
next
  case (raising e s')
  note f = sample_gains_raise_fields [OF raising(4)]
  show ?thesis
    using assms raising(2)
    by (simp add: raising(5) state_of_def gain_ok_def f)
qed

lemma reachable_gain_ok: "reachable s \<Longrightarrow> gain_ok s"
proof (induction rule: reachable.induct)
  case (reach_init t)
  show ?case by (simp add: gain_ok_def init_def)
next
  case (reach_update s timeNow timeSched temperature)
  then show ?case by (simp add: gain_ok_update)
next
  case (reach_activate s t)
  then show ?case by (simp add: gain_ok_def activate_def set_controlparam_default_def)
next
  case (reach_deactivate s)
  then show ?case by (simp add: gain_ok_def deactivate_def set_relayState_def)
next
  case (reach_at_temperature s t1 t2)
  then show ?case by (simp add: gain_ok_def at_temperature_def Let_def)
next
  case (reach_enable_print s)
  then show ?case by (simp add: gain_ok_def enable_print_def)
next
  case (reach_disable_print s)
  then show ?case by (simp add: gain_ok_def disable_print_def)
qed

lemma heating_reachable: "reachable heating"
  unfolding heating_def fresh_active_def
  by (intro reach_update reach_activate reach_init)

text \<open>
  Claim C9. In every state the object can reach from its initial state by the public
  methods (ticks that return or raise, \<open>activate\<close>, \<open>deactivate\<close>, and the others),
  a relay that is on goes with a stored gain \<open>k\<close> with \<open>0 < k\<close> and \<open>k \<le> 1\<close>. So
  the wait \<open>timeStep * (1 - k)\<close> computed by the tick that closes the on-phase is not
  negative, and the next action time it sets is not before the clock value read when
  scheduling, nor before the tick's first clock value when the clock does not run
  backwards between the two reads.
\<close>

theorem relay_on_gain_in_unit_interval:
  assumes "reachable s"
  shows "(relayOn s \<longrightarrow> 0 < k s \<and> k s \<le> 1)
    \<and> (controlActive s \<and> relayOn s \<and> timeNext s \<le> timeNow \<longrightarrow>
         0 \<le> timeStep s * (1 - k s)
         \<and> (\<exists>s'. update s timeNow timeSched temperature = Inr s'
              \<and> timeNext s' = timeSched + timeStep s * (1 - k s)
              \<and> timeSched \<le> timeNext s'
              \<and> (timeNow \<le> timeSched \<longrightarrow> timeNow \<le> timeNext s')))"
proof -
  from assms have g: "gain_ok s" by (rule reachable_gain_ok)
  have a: "relayOn s \<longrightarrow> 0 < k s \<and> k s \<le> 1"
    using g by (simp add: gain_ok_def)
  have b: "0 \<le> timeStep s * (1 - k s)" if "relayOn s"
    using g that by (simp add: gain_ok_def)
  have c: "\<exists>s'. update s timeNow timeSched temperature = Inr s'
              \<and> timeNext s' = timeSched + timeStep s * (1 - k s)
              \<and> timeSched \<le> timeNext s'
              \<and> (timeNow \<le> timeSched \<longrightarrow> timeNow \<le> timeNext s')"
    if "controlActive s" "relayOn s" "timeNext s \<le> timeNow"
    using b [OF that(2)] by (simp add: update_on_phase [OF that])
  show ?thesis using a b c by blast
qed

theorem relay_on_gain_in_unit_interval_witness:
  "reachable heating \<and> relayOn heating \<and> controlActive heating \<and> timeNext heating \<le> 1
    \<and> 0 < k heating \<and> k heating \<le> 1
    \<and> 0 \<le> timeStep heating * (1 - k heating)
    \<and> (\<exists>s'. update heating 1 2 0 = Inr s' \<and> 2 \<le> timeNext s' \<and> 1 \<le> timeNext s')"
proof -
  have h: "relayOn heating" "controlActive heating" "timeNext heating \<le> 1"
    by (simp_all add: heating_eq)
  from relay_on_gain_in_unit_interval [OF heating_reachable, of 1 2 0] h heating_reachable
  show ?thesis by auto
qed

subsection \<open>The switch to the anti-windup parameters\<close>

lemma run_ok_update:
  assumes "run_ok s"
  shows "run_ok (state_of (update s timeNow timeSched temperature))"
proof (cases rule: update_cases
    [where s = s and timeNow = timeNow and timeSched = timeSched and temperature = temperature])
  case idle
  then show ?thesis using assms by (simp add: state_of_def)
next
  case closing
  show ?thesis
    using assms closing(2)
    by (auto simp add: update_on_phase [OF closing] state_of_def run_ok_def
        default_params_def antiwindup_params_def split: if_splits)
next
  case (sampling g)
  note f = sample_gains_fields [OF sampling(4)]
  show ?thesis
    using assms sampling(2)
    by (auto simp add: sampling(5) state_of_def run_ok_def default_params_def
        antiwindup_params_def add_data_fields check_relay_fields f(5,6,7,19) split: if_splits)
next
  case (raising e s')
  note f = sample_gains_raise_fields [OF raising(4)]
  show ?thesis
    using assms raising(2)
    by (auto simp add: raising(5) state_of_def run_ok_def default_params_def
        antiwindup_params_def f split: if_splits)
qed

lemma antiwindup_update:
  assumes "antiwindup_params s"
  shows "antiwindup_params (state_of (update s timeNow timeSched temperature))"
proof (cases rule: update_cases
    [where s = s and timeNow = timeNow and timeSched = timeSched and temperature = temperature])
  case idle
  then show ?thesis using assms by (simp add: state_of_def)
next
  case closing
  show ?thesis
    using assms
    by (simp add: update_on_phase [OF closing] state_of_def antiwindup_params_def)
next
  case (sampling g)
  note f = sample_gains_fields [OF sampling(4)]
  show ?thesis
    using assms
    by (simp add: sampling(5) state_of_def antiwindup_params_def add_data_fields
        check_relay_fields f(5,6,7))
next
  case (raising e s')
  note f = sample_gains_raise_fields [OF raising(4)]
  show ?thesis
    using assms
    by (simp add: raising(5) state_of_def antiwindup_params_def f)
qed

lemma ticks_preserve:
  assumes step: "\<And>s timeNow timeSched temperature.
      P s \<Longrightarrow> P (state_of (update s timeNow timeSched temperature))"
    and "P s" and "ticks s inputs = Inr s'"
  shows "P s'"
  using assms(2,3)
proof (induction inputs arbitrary: s)
  case Nil
  then show ?case by simp
next
  case (Cons x rest)
  obtain timeNow timeSched temperature where x: "x = (timeNow, timeSched, temperature)"
    by (cases x) auto
  from Cons.prems(2) obtain s1 where
    u: "update s timeNow timeSched temperature = Inr s1" and r: "ticks s1 rest = Inr s'"
    by (auto simp add: x split: sum.splits)
  have "P s1"
    using step [OF Cons.prems(1), of timeNow timeSched temperature] by (simp add: u state_of_def)
  then show ?case using r by (rule Cons.IH)
qed

lemma run_ok_ticks:
  assumes "run_ok s" and "ticks s inputs = Inr s'"
  shows "run_ok s'"
  by (rule ticks_preserve [of run_ok, OF _ assms]) (rule run_ok_update)

lemma antiwindup_ticks:
  assumes "antiwindup_params s" and "ticks s inputs = Inr s'"
  shows "antiwindup_params s'"
  by (rule ticks_preserve [of antiwindup_params, OF _ assms]) (rule antiwindup_update)

lemma heat_cycle_fields:
  assumes "controlActive s" and "\<not> relayOn s" and "timeStep s = 1" and "setPoint s = 30"
    and "0 \<le> integral_prior s" and "error_prior s \<le> 5"
    and "default_params s \<or> antiwindup_params s"
  shows "controlActive (heat_cycle s)" and "\<not> relayOn (heat_cycle s)"
    and "timeStep (heat_cycle s) = 1" and "setPoint (heat_cycle s) = 30"
    and "integral_prior (heat_cycle s) = integral_prior s + 5"
    and "error_prior (heat_cycle s) = 5"
    and "stepCount (heat_cycle s) = stepCount s + 1"
    and "kp (heat_cycle s) = (if stepCount s = 250 then PID_ANTIWINDUP_KP else kp s)"
    and "Ti (heat_cycle s) = (if stepCount s = 250 then PID_ANTIWINDUP_TI else Ti s)"
    and "Td (heat_cycle s) = (if stepCount s = 250 then PID_ANTIWINDUP_TD else Td s)"
proof -
  have "timeStep s \<noteq> 0" using assms(3) by simp
  then obtain g where g: "sample_gains 25 s = Inr g"
    using sample_gains_returns by blast
  note f = sample_gains_fields [OF g]
  have par: "0 < kp g" "0 < Ti g" "Td g = 9"
    using assms(7) by (auto simp add: f default_params_def antiwindup_params_def const_defs)
  have vals: "error g = 5" "integral g = integral_prior s + 5" "derivative g = 5 - error_prior s"
    by (simp_all add: f assms(3,4))
  have "0 \<le> Ti g * integral g"
    using par(2) assms(5) by (simp add: vals)
  then have "0 < error g + Ti g * integral g + Td g * derivative g"
    using assms(6) by (simp add: vals par(3))
  then have "0 < kp g * (error g + Ti g * integral g + Td g * derivative g)"
    using par(1) by (rule mult_pos_pos [rotated])
  then have pos: "0 < k g" by (simp add: f(4))
  have below: "25 < setPoint g" by (simp add: f assms(4))
  define s1 where "s1 = add_data (timeNext s) 25 (check_relay (timeNext s) 25 g)"
  have u1: "update s (timeNext s) (timeNext s) 25 = Inr s1"
    unfolding s1_def using assms(1,2) _ g by (rule update_off_phase) simp
  have s1: "relayOn s1" "controlActive s1" "error s1 = 5" "integral s1 = integral_prior s + 5"
    "stepCount s1 = stepCount s" "timeStep s1 = 1" "setPoint s1 = 30"
    "kp s1 = kp g" "Ti s1 = Ti g" "Td s1 = Td g"
    by (simp_all add: s1_def add_data_fields check_relay_fields check_relay_on [OF below pos]
        vals f(10,12,16,19) assms(1,3,4))
  have u2: "update s1 (timeNext s1) (timeNext s1) 25 =
    Inr (s1\<lparr>relayOn := False, effects := effects s1 @ [RelayOff], stepCount := stepCount s1 + 1,
      error_prior := error s1, integral_prior := integral s1,
      timeNext := timeNext s1 + timeStep s1 * (1 - k s1)\<rparr>)"
    using s1(2,1) by (rule update_on_phase) simp
  have hc: "heat_cycle s = s1\<lparr>relayOn := False, effects := effects s1 @ [RelayOff],
      stepCount := stepCount s1 + 1, error_prior := error s1, integral_prior := integral s1,
      timeNext := timeNext s1 + timeStep s1 * (1 - k s1)\<rparr>"
    by (simp add: heat_cycle_def Let_def u1 u2 state_of_def)
  show "controlActive (heat_cycle s)" and "\<not> relayOn (heat_cycle s)"
    and "timeStep (heat_cycle s) = 1" and "setPoint (heat_cycle s) = 30"
    and "integral_prior (heat_cycle s) = integral_prior s + 5"
    and "error_prior (heat_cycle s) = 5"
    and "stepCount (heat_cycle s) = stepCount s + 1"
    and "kp (heat_cycle s) = (if stepCount s = 250 then PID_ANTIWINDUP_KP else kp s)"
    and "Ti (heat_cycle s) = (if stepCount s = 250 then PID_ANTIWINDUP_TI else Ti s)"
    and "Td (heat_cycle s) = (if stepCount s = 250 then PID_ANTIWINDUP_TD else Td s)"
    by (simp_all add: hc s1 f(5,6,7))
qed

lemma heat_cycle_reachable: "reachable s \<Longrightarrow> reachable (heat_cycle s)"
  by (simp add: heat_cycle_def Let_def reach_update)

lemma cycled_heat_cycles: "cycled n ((heat_cycle ^^ n) fresh_active)"
proof (induction n)
  case 0
  have "reachable fresh_active"
    unfolding fresh_active_def by (intro reach_activate reach_init)
  then show ?case
    by (simp add: cycled_def fresh_active_eq default_params_def const_defs)
next
  case (Suc n)
  let ?s = "(heat_cycle ^^ n) fresh_active"
  from Suc.IH have a: "reachable ?s" "stepCount ?s = int n" "controlActive ?s" "\<not> relayOn ?s"
    "timeStep ?s = 1" "setPoint ?s = 30" "0 \<le> integral_prior ?s" "error_prior ?s \<le> 5"
    "if n \<le> 250 then default_params ?s else antiwindup_params ?s"
    by (simp_all add: cycled_def)
  have p: "default_params ?s \<or> antiwindup_params ?s"
    using a(9) by (simp split: if_splits)
  note h = heat_cycle_fields [OF a(3-8) p]
  have params: "if Suc n \<le> 250 then default_params (heat_cycle ?s)
      else antiwindup_params (heat_cycle ?s)"
    using a(9)
    by (auto simp add: default_params_def antiwindup_params_def h(8,9,10) a(2) split: if_splits)
  show ?case
    using params a(7)
    by (simp add: cycled_def heat_cycle_reachable [OF a(1)] h(1-7) a(2))
qed

lemmas eval_defs =
  update_def sample_gains_eq update_gains_eq check_relay_def add_data_def helper_defs Let_def
  state_of_def const_defs

lemma near_switch_eq:
  "near_switch = \<lparr> printData = False, controlActive = True,
     kp = 9 / 100, Ti = 1 / 1000000, Td = 9,
     k = 0, integral = 0, integral_prior = 0, derivative = 0, error = 0, error_prior = 0,
     stepCount = 249, timeStep = 1, timeNext = 0, temperatureLast = 0, relayOn = False,
     df = [], setPoint = 30, effects = [] \<rparr>"
  by (simp add: near_switch_def activate_def init_def set_controlparam_default_def const_defs)

lemma near_switch_ticks:
  "ticks near_switch [(0, 0, 25), (1, 1, 0)] =
    Inr \<lparr> printData = False, controlActive = True,
     kp = 9 / 100, Ti = 1 / 1000000, Td = 9,
     k = 1, integral = 5, integral_prior = 5, derivative = 5, error = 5, error_prior = 5,
     stepCount = 250, timeStep = 1, timeNext = 1, temperatureLast = 25, relayOn = False,
     df = [(0, 25, 1)], setPoint = 30, effects = [SensorRead, RelayOn, RelayOff] \<rparr>"
  by (simp add: near_switch_eq eval_defs)

lemma at_switch_eq:
  "at_switch = \<lparr> printData = False, controlActive = True,
     kp = 9 / 100, Ti = 1 / 1000000, Td = 9,
     k = 1, integral = 5, integral_prior = 5, derivative = 5, error = 5, error_prior = 5,
     stepCount = 250, timeStep = 1, timeNext = 1, temperatureLast = 25, relayOn = False,
     df = [(0, 25, 1)], setPoint = 30, effects = [SensorRead, RelayOn, RelayOff] \<rparr>"
  unfolding at_switch_def near_switch_ticks by (simp add: state_of_def)

lemma at_switch_ticks:
  "ticks at_switch [(1, 1, 25)] =
    Inr \<lparr> printData = False, controlActive = True,
     kp = 1 / 25, Ti = 1 / 250, Td = 9,
     k = 126 / 625, integral = 10, integral_prior = 5, derivative = 0, error = 5,
     error_prior = 5, stepCount = 250, timeStep = 1, timeNext = 751 / 625,
     temperatureLast = 25, relayOn = True, df = [(0, 25, 1), (1, 25, 126 / 625)],
     setPoint = 30, effects = [SensorRead, RelayOn, RelayOff, SensorRead, RelayOn] \<rparr>"
  by (simp add: at_switch_eq eval_defs)

lemma switched_eq:
  "switched = \<lparr> printData = False, controlActive = True,
     kp = 1 / 25, Ti = 1 / 250, Td = 9,
     k = 126 / 625, integral = 10, integral_prior = 5, derivative = 0, error = 5,
     error_prior = 5, stepCount = 250, timeStep = 1, timeNext = 751 / 625,
     temperatureLast = 25, relayOn = True, df = [(0, 25, 1), (1, 25, 126 / 625)],
     setPoint = 30, effects = [SensorRead, RelayOn, RelayOff, SensorRead, RelayOn] \<rparr>"
  unfolding switched_def at_switch_ticks by (simp add: state_of_def)

lemma ticks_append:
  "ticks s (xs @ ys) = (case ticks s xs of Inl e \<Rightarrow> Inl e | Inr s' \<Rightarrow> ticks s' ys)"
  by (induction xs arbitrary: s) (auto split: sum.splits)

lemma near_switch_three_ticks:
  "ticks near_switch [(0, 0, 25), (1, 1, 0), (1, 1, 25)] = Inr switched"
proof -
  have "ticks near_switch ([(0, 0, 25), (1, 1, 0)] @ [(1, 1, 25)]) = Inr switched"
    unfolding ticks_append
    by (simp only: near_switch_ticks sum.case at_switch_eq [symmetric] at_switch_ticks
        switched_eq [symmetric])
  then show ?thesis by simp
qed

lemma switched_tick:
  "ticks switched [(2, 2, 0)] =
    Inr (switched\<lparr>relayOn := False,
      effects := [SensorRead, RelayOn, RelayOff, SensorRead, RelayOn, RelayOff],
      stepCount := 251, error_prior := 5, integral_prior := 10, timeNext := 1749 / 625\<rparr>)"
  by (simp add: switched_eq eval_defs)

text \<open>
  What does hold of the switch. In a run that starts with \<open>activate\<close> at a step
  count below 250, or at 250 with the relay off (the first run of a new object is
  one), and goes on by ticks: while the step count is below 250 the parameters are the
  default preset, and above 250 they are the anti-windup preset, as they are at 250
  while the relay is on; an off-phase tick computes its gain with the default preset
  when the step count is below 250 and with the anti-windup preset from 250 on (\<open>g\<close>
  is the object after \<^verbatim>\<open>__update_gains\<close>: the switch is made by the first off-phase
  tick at step count 250); and once the parameters are the anti-windup preset, no later
  tick changes them.
\<close>

theorem run_parameters:
  assumes "stepCount s0 < 250 \<or> (stepCount s0 = 250 \<and> \<not> relayOn s0)"
    and "ticks (activate t s0) inputs = Inr s"
  shows "(stepCount s < 250 \<longrightarrow> default_params s)
    \<and> (250 < stepCount s \<longrightarrow> antiwindup_params s)
    \<and> (relayOn s \<and> 250 \<le> stepCount s \<longrightarrow> antiwindup_params s)
    \<and> (\<not> relayOn s \<and> sample_gains temperature s = Inr g \<longrightarrow>
         (if stepCount s < 250 then default_params g else antiwindup_params g))
    \<and> (antiwindup_params s \<and> ticks s later = Inr s' \<longrightarrow> antiwindup_params s')"
proof -
  have "run_ok (activate t s0)"
    using assms(1)
    by (auto simp add: run_ok_def activate_def set_controlparam_default_def default_params_def)
  then have ok: "run_ok s"
    using assms(2) by (rule run_ok_ticks)
  have a: "stepCount s < 250 \<longrightarrow> default_params s"
    and b: "250 < stepCount s \<longrightarrow> antiwindup_params s"
    and c: "relayOn s \<and> 250 \<le> stepCount s \<longrightarrow> antiwindup_params s"
    using ok by (auto simp add: run_ok_def split: if_splits)
  have d: "if stepCount s < 250 then default_params g else antiwindup_params g"
    if "\<not> relayOn s" "sample_gains temperature s = Inr g"
  proof -
    note f = sample_gains_fields [OF that(2)]
    show ?thesis
      using a b
      by (auto simp add: default_params_def antiwindup_params_def f(5,6,7))
  qed
  have e: "antiwindup_params s'" if "antiwindup_params s" "ticks s later = Inr s'"
    using that by (rule antiwindup_ticks)
  show ?thesis using a b c d e by blast
qed

theorem run_parameters_witness:
  "stepCount ((init 0)\<lparr>stepCount := 249\<rparr>) < 250
   \<and> ticks (activate 0 ((init 0)\<lparr>stepCount := 249\<rparr>)) [] = Inr near_switch
   \<and> stepCount near_switch < 250 \<and> default_params near_switch
   \<and> ticks (activate 0 ((init 0)\<lparr>stepCount := 249\<rparr>)) [(0, 0, 25), (1, 1, 0)] = Inr at_switch
   \<and> stepCount at_switch = 250 \<and> \<not> relayOn at_switch
   \<and> sample_gains 25 at_switch = Inr (state_of (sample_gains 25 at_switch))
   \<and> antiwindup_params (state_of (sample_gains 25 at_switch))
   \<and> ticks (activate 0 ((init 0)\<lparr>stepCount := 249\<rparr>)) [(0, 0, 25), (1, 1, 0), (1, 1, 25)]
       = Inr switched
   \<and> relayOn switched \<and> stepCount switched = 250 \<and> antiwindup_params switched
   \<and> ticks switched [(2, 2, 0)] = Inr (state_of (ticks switched [(2, 2, 0)]))
   \<and> stepCount (state_of (ticks switched [(2, 2, 0)])) = 251
   \<and> antiwindup_params (state_of (ticks switched [(2, 2, 0)]))"
proof -
  let ?s0 = "(init 0)\<lparr>stepCount := 249\<rparr>"
  have lt: "stepCount ?s0 < 250" by simp
  then have h: "stepCount ?s0 < 250 \<or> (stepCount ?s0 = 250 \<and> \<not> relayOn ?s0)" by simp
  have r0: "ticks (activate 0 ?s0) [] = Inr near_switch"
    by (simp add: near_switch_def)
  have r2: "ticks (activate 0 ?s0) [(0, 0, 25), (1, 1, 0)] = Inr at_switch"
    unfolding near_switch_def [symmetric] by (simp only: near_switch_ticks at_switch_eq)
  have r3: "ticks (activate 0 ?s0) [(0, 0, 25), (1, 1, 0), (1, 1, 25)] = Inr switched"
    unfolding near_switch_def [symmetric] by (rule near_switch_three_ticks)
  have v0: "stepCount near_switch < 250" by (simp add: near_switch_eq)
  have v2: "stepCount at_switch = 250" "\<not> relayOn at_switch"
    by (simp_all add: at_switch_eq)
  have g: "sample_gains 25 at_switch = Inr (state_of (sample_gains 25 at_switch))"
    by (simp add: at_switch_eq sample_gains_eq update_gains_eq state_of_def)
  have v3: "relayOn switched" "stepCount switched = 250" "250 \<le> stepCount switched"
    by (simp_all add: switched_eq)
  have r4: "ticks switched [(2, 2, 0)] = Inr (state_of (ticks switched [(2, 2, 0)]))"
    unfolding switched_tick by (simp add: state_of_def)
  have v4: "stepCount (state_of (ticks switched [(2, 2, 0)])) = 251"
    unfolding switched_tick by (simp add: state_of_def)
  from run_parameters [OF h r0] v0 have c0: "default_params near_switch" by blast
  from run_parameters [OF h r2, of 25 "state_of (sample_gains 25 at_switch)"] v2 g
  have c2: "antiwindup_params (state_of (sample_gains 25 at_switch))" by auto
  from run_parameters [OF h r3] v3 have c3: "antiwindup_params switched" by blast
  from run_parameters [OF h r3, of _ _ "[(2, 2, 0)]" "state_of (ticks switched [(2, 2, 0)])"]
    c3 r4
  have c4: "antiwindup_params (state_of (ticks switched [(2, 2, 0)]))" by blast
  show ?thesis
    by (intro conjI) (fact lt r0 r2 r3 v0 v2 g v3 r4 v4 c0 c2 c3 c4)+
qed

text \<open>
  Past step count 250 the default preset stays: the step count only grows, so the test
  for 250 never holds again.
\<close>

lemma stuck_default_update:
  assumes "stuck_default s"
  shows "stuck_default (state_of (update s timeNow timeSched temperature))"
proof (cases rule: update_cases
    [where s = s and timeNow = timeNow and timeSched = timeSched and temperature = temperature])
  case idle
  then show ?thesis using assms by (simp add: state_of_def)
next
  case closing
  show ?thesis
    using assms
    by (simp add: update_on_phase [OF closing] state_of_def stuck_default_def default_params_def)
next
  case (sampling g)
  note f = sample_gains_fields [OF sampling(4)]
  show ?thesis
    using assms
    by (simp add: sampling(5) state_of_def stuck_default_def default_params_def add_data_fields
        check_relay_fields f(5,6,7,19))
next
  case (raising e s')
  note f = sample_gains_raise_fields [OF raising(4)]
  show ?thesis
    using assms
    by (simp add: raising(5) state_of_def stuck_default_def default_params_def f)
qed

lemma stuck_default_ticks:
  assumes "stuck_default s" and "ticks s inputs = Inr s'"
  shows "stuck_default s'"
  by (rule ticks_preserve [of stuck_default, OF _ assms]) (rule stuck_default_update)

lemma reactivated_stuck: "stuck_default reactivated"
proof -
  have "cycled 251 ((heat_cycle ^^ 251) fresh_active)" by (rule cycled_heat_cycles)
  then have "stepCount ((heat_cycle ^^ 251) fresh_active) = 251"
    by (simp add: cycled_def)
  then show ?thesis
    by (simp add: stuck_default_def reactivated_def activate_def set_controlparam_default_def
        default_params_def)
qed

lemma reactivated_never_switches:
  assumes "ticks reactivated inputs = Inr s'"
  shows "250 < stepCount s' \<and> default_params s' \<and> \<not> antiwindup_params s'"
proof -
  have "stuck_default s'"
    using reactivated_stuck assms by (rule stuck_default_ticks)
  then show ?thesis
    by (auto simp add: stuck_default_def default_params_def antiwindup_params_def const_defs)
qed

text \<open>
  Claim C2 fails on the code. \<^verbatim>\<open>__set_controlparam_antiwindup\<close> is documented as
  \<^verbatim>\<open>After 250 cycles, the PID control parameters should be changed to new values\<close>, and
  \<^verbatim>\<open>__set_controlparam_default\<close> as the preset of the first 250 cycles. But
  \<open>activate\<close> puts the default preset back and leaves the step count as it is, and
  \<open>update\<close> makes the switch at step count 250 only, not from 250 on. The object
  \<open>reactivated\<close> can be reached by the public methods: after 251 heating cycles it has
  the anti-windup preset, a second \<open>activate\<close> reverts it to the default preset, and
  the off-phase tick that follows computes its gain with the default preset at step
  count 251. No later tick switches it again (\<open>reactivated_never_switches\<close>).
\<close>

theorem reactivation_past_250_keeps_default_gains:
  "reachable reactivated
   \<and> reactivated = activate 0 ((heat_cycle ^^ 251) fresh_active)
   \<and> antiwindup_params ((heat_cycle ^^ 251) fresh_active)
   \<and> stepCount reactivated = 251
   \<and> controlActive reactivated \<and> \<not> relayOn reactivated \<and> timeNext reactivated \<le> 0
   \<and> default_params reactivated
   \<and> sample_gains 25 reactivated = Inr (state_of (sample_gains 25 reactivated))
   \<and> default_params (state_of (sample_gains 25 reactivated))
   \<and> \<not> antiwindup_params (state_of (sample_gains 25 reactivated))"
proof -
  let ?s = "(heat_cycle ^^ 251) fresh_active"
  have c: "cycled 251 ?s" by (rule cycled_heat_cycles)
  then have a: "reachable ?s" "stepCount ?s = 251" "\<not> relayOn ?s" "timeStep ?s = 1"
    "antiwindup_params ?s"
    by (simp_all add: cycled_def)
  have r: "reachable reactivated"
    unfolding reactivated_def using a(1) by (rule reach_activate)
  have f: "stepCount reactivated = 251" "controlActive reactivated" "\<not> relayOn reactivated"
    "timeNext reactivated \<le> 0" "default_params reactivated" "timeStep reactivated \<noteq> 0"
    using a(2-4)
    by (simp_all add: reactivated_def activate_def set_controlparam_default_def default_params_def)
  from f(6) obtain g where g: "sample_gains 25 reactivated = Inr g"
    using sample_gains_returns by blast
  note gf = sample_gains_fields [OF g]
  have sg: "state_of (sample_gains 25 reactivated) = g"
    by (simp add: g state_of_def)
  have d: "default_params g"
    using f(1,5) by (simp add: default_params_def gf)
  then have nd: "\<not> antiwindup_params g"
    by (simp add: default_params_def antiwindup_params_def const_defs)
  show ?thesis
    unfolding sg using r a(5) f(1-5) g d nd by (simp add: reactivated_def)
qed

end
